theory Spec2Isabelle
  imports Main
begin

section \<open>Data model of package uma\<close>

text \<open>
  The embedding follows \<^verbatim>\<open>src/resource_middleware.go\<close> and the provider half of
  \<^verbatim>\<open>src/pkg/rp/keycloak.go\<close> (lines 318-479, package \<^verbatim>\<open>uma\<close>). Structs are records,
  Go maps are HOL maps, \<^verbatim>\<open>error\<close> returns are sums or options, and a \<^verbatim>\<open>panic\<close> is a
  value of its own type, so that an aborted request is a result that can be inspected.
\<close>

datatype json =
    JNull
  | JBool bool
  | JNum int
  | JStr string
  | JArr "json list"
  | JObj "(string \<times> json) list"

datatype body =
    NoBody
  | JSON json
  | Form "string \<rightharpoonup> string list"

record http_request =
  Method :: string
  URL :: string
  Header :: "string \<rightharpoonup> string"
  Body :: body

record http_response =
  StatusCode :: nat
  RespBody :: "json option"

datatype error =
    ErrUnsupportedProviderType string
  | ErrDiscovery string
  | ErrRequest string
  | ErrTransport string
  | ErrStatus nat "json option"
  | ErrDecode
  | ErrSignature string

datatype panic =
    PanicError error
  | PanicString string

text \<open>\<^verbatim>\<open>KeySet\<close> is an interface with the one method \<^verbatim>\<open>VerifySignature\<close>.\<close>

type_synonym KeySet = "string \<Rightarrow> error + string"

text \<open>
  Modelled from the spec: the types \<^verbatim>\<open>ResourceType\<close>, \<^verbatim>\<open>UMAResource\<close> and \<^verbatim>\<open>UMADiscovery\<close>
  are used by the source but declared outside it; their fields are the ones the spec's
  data model lists.
\<close>

record ResourceType =
  Type :: string
  IconUri :: string
  ResourceScopes :: "string list"

record UMAResource =
  ResourceType :: ResourceType
  ID :: string
  Name :: string
  URI :: string

record UMADiscovery =
  ResourceRegistrationEndpoint :: string
  PermissionEndpoint :: string
  TokenEndpoint :: string

text \<open>
  \<^verbatim>\<open>ClientCreds\<close> is declared outside the source and no function here reads it, so
  it stays an opaque type.
\<close>

typedecl ClientCreds

type_synonym ProviderType = string

definition Keycloak :: ProviderType where
  "Keycloak = ''keycloak''"

record ProviderInfo =
  pinfo_Issuer :: string
  pinfo_Type :: ProviderType
  pinfo_ClientID :: string
  pinfo_ClientSecret :: string
  pinfo_KeySet :: KeySet

record baseProvider =
  Issuer :: string
  ClientID :: string
  ClientSecret :: string
  KeySet :: KeySet
  UMADiscovery :: UMADiscovery
  ClientCreds :: "ClientCreds option"
  registeredResources :: "string \<rightharpoonup> string"

record createResourceResponse =
  resp_ID :: string

text \<open>
  A Go slice is either \<^verbatim>\<open>nil\<close> (\<open>None\<close>) or holds its elements (\<open>Some xs\<close>, where
  \<open>xs\<close> may be empty). The difference shows in JSON: \<^verbatim>\<open>encoding/json\<close> writes a nil
  slice as \<^verbatim>\<open>null\<close> and a non-nil one as an array. A variadic parameter is nil when
  the call passes no arguments.
\<close>

type_synonym 'a slice = "'a list option"

record permissionRequest =
  ResourceID :: string
  req_ResourceScopes :: "string slice"

record permissionResponse =
  resp_Ticket :: string

text \<open>
  Outbound traffic is recorded in a trace: one event for every discovery fetch and one for
  every request handed to \<^verbatim>\<open>DoRequest\<close>. What the authorization server answers is a
  parameter of the model; it may depend on everything sent so far.
\<close>

datatype event =
    Discover string
  | Request http_request

type_synonym addr = nat

text \<open>
  An inbound request. The two \<open>ctx\<close> fields are the values stashed in the request's
  context (\<^verbatim>\<open>context.WithValue\<close>): the resolved Provider, a pointer, and the matched
  Resource.
\<close>

record request =
  Path :: string
  ctxProvider :: "addr option"
  ctxResource :: "UMAResource option"

text \<open>
  The collaborators the source receives from outside: the per-request resolver of
  \<^verbatim>\<open>ResourceMiddlewareOptions\<close>, the template matching of the resource matcher, and the
  authorization server behind the HTTP client.
\<close>

record env =
  getProviderInfo :: "request \<Rightarrow> ProviderInfo"
  matchTemplates :: "request \<Rightarrow> UMAResource option"
  discoveryDocument :: "event list \<Rightarrow> string \<Rightarrow> error + UMADiscovery"
  roundTrip :: "event list \<Rightarrow> http_request \<Rightarrow> error + http_response"

section \<open>The shared base provider\<close>

definition zeroDiscovery :: UMADiscovery where
  "zeroDiscovery =
     \<lparr>ResourceRegistrationEndpoint = [], PermissionEndpoint = [], TokenEndpoint = []\<rparr>"

text \<open>\<^verbatim>\<open>newBaseProvider\<close>, keycloak.go:387. Fields not named in the literal are zero.\<close>

definition newBaseProvider :: "string \<Rightarrow> string \<Rightarrow> string \<Rightarrow> KeySet \<Rightarrow> baseProvider" where
  "newBaseProvider issuer clientID clientSecret keySet =
     \<lparr>Issuer = issuer,
      ClientID = clientID,
      ClientSecret = clientSecret,
      KeySet = keySet,
      UMADiscovery = zeroDiscovery,
      ClientCreds = None,
      registeredResources = Map.empty\<rparr>"

definition VerifySignature :: "baseProvider \<Rightarrow> string \<Rightarrow> error + string" where
  "VerifySignature p jwt = KeySet p jwt"

text \<open>
  Modelled from the spec: \<^verbatim>\<open>jsonRequest\<close> is not under src/. It builds a request with
  the given method and URL whose body is the JSON encoding of the value; the spec names
  no failure of it, the source checks its error all the same, so the result is a sum.
\<close>

definition jsonRequest :: "string \<Rightarrow> string \<Rightarrow> json \<Rightarrow> error + http_request" where
  "jsonRequest method url v =
     Inr \<lparr>Method = method, URL = url,
          Header = [''Content-Type'' \<mapsto> ''application/json''],
          Body = JSON v\<rparr>"

text \<open>
  Modelled from the spec: \<^verbatim>\<open>DoRequest\<close> is not under src/. It is the single chokepoint
  through which outbound protocol calls are issued: the request is recorded and the
  server's answer returned.
\<close>

definition DoRequest ::
  "env \<Rightarrow> http_request \<Rightarrow> event list \<Rightarrow> (error + http_response) \<times> event list" where
  "DoRequest e req w = (roundTrip e w req, w @ [Request req])"

text \<open>
  Modelled from the spec: \<^verbatim>\<open>ensure2XX\<close> is not under src/. A non-success status is a
  protocol error carrying status and body.
\<close>

definition ensure2XX :: "http_response \<Rightarrow> error option" where
  "ensure2XX resp =
     (if 200 \<le> StatusCode resp \<and> StatusCode resp < 300 then None
      else Some (ErrStatus (StatusCode resp) (RespBody resp)))"

text \<open>
  Modelled from the spec: \<^verbatim>\<open>decodeJSONResponse\<close> is not under src/. It decodes the
  response body into the given struct; a malformed body is a decode error. The structs
  decoded here have one string field each, named by the \<^verbatim>\<open>json\<close> tag in the source.
\<close>

definition stringField :: "string \<Rightarrow> json option \<Rightarrow> error + string" where
  "stringField k b =
     (case b of
        Some (JObj kvs) \<Rightarrow>
          (case map_of kvs k of
             None \<Rightarrow> Inr []
           | Some JNull \<Rightarrow> Inr []
           | Some (JStr s) \<Rightarrow> Inr s
           | Some _ \<Rightarrow> Inl ErrDecode)
      | _ \<Rightarrow> Inl ErrDecode)"

definition decode_createResourceResponse ::
  "http_response \<Rightarrow> error + createResourceResponse" where
  "decode_createResourceResponse resp =
     (case stringField ''_id'' (RespBody resp) of
        Inl err \<Rightarrow> Inl err
      | Inr s \<Rightarrow> Inr \<lparr>resp_ID = s\<rparr>)"

definition decode_permissionResponse ::
  "http_response \<Rightarrow> error + permissionResponse" where
  "decode_permissionResponse resp =
     (case stringField ''ticket'' (RespBody resp) of
        Inl err \<Rightarrow> Inl err
      | Inr s \<Rightarrow> Inr \<lparr>resp_Ticket = s\<rparr>)"

text \<open>
  Modelled from the spec: the JSON encoding of a Resource, whose struct tags are not under
  src/, has the members the spec's interface table lists (name, type, scopes, icon, uri).
\<close>

definition resource_json :: "UMAResource \<Rightarrow> json" where
  "resource_json r =
     JObj [(''name'', JStr (Name r)),
           (''type'', JStr (Type (ResourceType r))),
           (''resource_scopes'', JArr (map JStr (ResourceScopes (ResourceType r)))),
           (''icon_uri'', JStr (IconUri (ResourceType r))),
           (''uri'', JStr (URI r))]"

text \<open>
  The encoding of \<^verbatim>\<open>permissionRequest\<close> follows its struct tags, keycloak.go:443.
  Neither tag has \<^verbatim>\<open>omitempty\<close>, so both members are always written, and a nil
  \<^verbatim>\<open>ResourceScopes\<close> is written as \<^verbatim>\<open>null\<close>.
\<close>

definition stringSlice_json :: "string slice \<Rightarrow> json" where
  "stringSlice_json xs = (case xs of None \<Rightarrow> JNull | Some ys \<Rightarrow> JArr (map JStr ys))"

definition permissionRequest_json :: "permissionRequest \<Rightarrow> json" where
  "permissionRequest_json pr =
     JObj [(''resource_id'', JStr (ResourceID pr)),
           (''resource_scopes'', stringSlice_json (req_ResourceScopes pr))]"

text \<open>
  \<^verbatim>\<open>baseProvider.registerResource\<close>, keycloak.go:401. The callback \<open>register\<close> runs
  against the trace and returns the new one. The provider is returned updated.
\<close>

definition registerResource ::
  "baseProvider \<Rightarrow> UMAResource \<Rightarrow> (event list \<Rightarrow> (error + string) \<times> event list) \<Rightarrow>
   event list \<Rightarrow> (error + string) \<times> baseProvider \<times> event list" where
  "registerResource p resource register w =
     (case registeredResources p (Name resource) of
        Some s \<Rightarrow> (Inr s, p, w)
      | None \<Rightarrow>
          (case register w of (res, w') \<Rightarrow>
             (case res of
                Inl err \<Rightarrow> (Inl err, p, w')
              | Inr resourceID \<Rightarrow>
                  (Inr resourceID,
                   p\<lparr>registeredResources := (registeredResources p)(Name resource \<mapsto> resourceID)\<rparr>,
                   w'))))"

text \<open>The closure passed by \<^verbatim>\<open>RegisterResource\<close>, keycloak.go:418-435.\<close>

definition register ::
  "env \<Rightarrow> baseProvider \<Rightarrow> UMAResource \<Rightarrow> event list \<Rightarrow> (error + string) \<times> event list" where
  "register e p resource w =
     (case jsonRequest ''POST'' (ResourceRegistrationEndpoint (UMADiscovery p))
             (resource_json resource) of
        Inl err \<Rightarrow> (Inl err, w)
      | Inr req \<Rightarrow>
          (case DoRequest e req w of (res, w') \<Rightarrow>
             (case res of
                Inl err \<Rightarrow> (Inl err, w')
              | Inr resp \<Rightarrow>
                  (case ensure2XX resp of
                     Some err \<Rightarrow> (Inl err, w')
                   | None \<Rightarrow>
                       (case decode_createResourceResponse resp of
                          Inl err \<Rightarrow> (Inl err, w')
                        | Inr respObj \<Rightarrow> (Inr (resp_ID respObj), w'))))))"

text \<open>
  \<^verbatim>\<open>baseProvider.RegisterResource\<close>, keycloak.go:417. The result is the returned error
  (\<open>None\<close> is \<^verbatim>\<open>nil\<close>), the resource as the call leaves it, the provider and the trace.
\<close>

definition RegisterResource ::
  "env \<Rightarrow> baseProvider \<Rightarrow> UMAResource \<Rightarrow> event list \<Rightarrow>
   error option \<times> UMAResource \<times> baseProvider \<times> event list" where
  "RegisterResource e p resource w =
     (case registerResource p resource (register e p resource) w of (res, p', w') \<Rightarrow>
        (case res of
           Inl err \<Rightarrow> (Some err, resource, p', w')
         | Inr rid \<Rightarrow> (None, resource\<lparr>ID := rid\<rparr>, p', w')))"

text \<open>
  \<^verbatim>\<open>baseProvider.RequestPermissionTicket\<close>, keycloak.go:452. \<open>scopes\<close> is the slice the
  variadic parameter \<^verbatim>\<open>scopes ...string\<close> is bound to: \<open>None\<close> for a call without
  scopes, \<open>Some xs\<close> for a call with the scopes \<open>xs\<close>.
\<close>

definition RequestPermissionTicket ::
  "env \<Rightarrow> baseProvider \<Rightarrow> string \<Rightarrow> string slice \<Rightarrow> event list \<Rightarrow>
   (error + string) \<times> baseProvider \<times> event list" where
  "RequestPermissionTicket e p resourceID scopes w =
     (case jsonRequest ''POST'' (PermissionEndpoint (UMADiscovery p))
             (JArr (map permissionRequest_json
                [\<lparr>ResourceID = resourceID, req_ResourceScopes = scopes\<rparr>])) of
        Inl err \<Rightarrow> (Inl err, p, w)
      | Inr req \<Rightarrow>
          (case DoRequest e req w of (res, w') \<Rightarrow>
             (case res of
                Inl err \<Rightarrow> (Inl err, p, w')
              | Inr resp \<Rightarrow>
                  (case ensure2XX resp of
                     Some err \<Rightarrow> (Inl err, p, w')
                   | None \<Rightarrow>
                       (case decode_permissionResponse resp of
                          Inl err \<Rightarrow> (Inl err, p, w')
                        | Inr respObj \<Rightarrow> (Inr (resp_Ticket respObj), p, w'))))))"

text \<open>\<^verbatim>\<open>baseProvider.Realm\<close>, keycloak.go:473: the body is a single \<^verbatim>\<open>panic\<close>.\<close>

definition Realm :: "baseProvider \<Rightarrow> panic + string" where
  "Realm p = Inl (PanicString ''Realm unimplemented'')"

definition AuthorizationServerURI :: "baseProvider \<Rightarrow> string" where
  "AuthorizationServerURI p = Issuer p"

section \<open>The middleware\<close>

text \<open>
  Providers are heap objects: \<^verbatim>\<open>m.providers\<close> holds pointers, and \<^verbatim>\<open>RegisterResource\<close>
  writes through them. The state therefore has an explicit store. \<open>allocated\<close> counts the
  Provider objects constructed so far; a construction takes the next address.
\<close>

record state =
  providers :: "string \<rightharpoonup> addr"
  heap :: "addr \<Rightarrow> baseProvider"
  allocated :: nat
  trace :: "event list"

definition nilKeySet :: KeySet where
  "nilKeySet jwt = Inl (ErrSignature ''nil KeySet'')"

text \<open>
  The state \<^verbatim>\<open>ResourceMiddleware\<close> starts from, resource_middleware.go:74-80: an empty
  \<^verbatim>\<open>providers\<close> map, nothing constructed, nothing sent.
\<close>

definition newMiddleware :: state where
  "newMiddleware =
     \<lparr>providers = Map.empty,
      heap = (\<lambda>a. newBaseProvider [] [] [] nilKeySet),
      allocated = 0,
      trace = []\<rparr>"

text \<open>\<^verbatim>\<open>setProvider\<close> and the package-level \<^verbatim>\<open>getProvider\<close>, keycloak.go:366-375.\<close>

definition setProvider :: "request \<Rightarrow> addr \<Rightarrow> request" where
  "setProvider r p = r\<lparr>ctxProvider := Some p\<rparr>"

definition providerOf :: "request \<Rightarrow> addr option" where
  "providerOf r = ctxProvider r"

text \<open>
  Modelled from the spec: \<^verbatim>\<open>DiscoverUMA\<close> is not under src/. It is a one-time fetch of
  the discovery document that populates \<^verbatim>\<open>UMADiscovery\<close>; a failed fetch is returned
  as an error.
\<close>

definition DiscoverUMA ::
  "env \<Rightarrow> baseProvider \<Rightarrow> event list \<Rightarrow> error option \<times> baseProvider \<times> event list" where
  "DiscoverUMA e p w =
     (case discoveryDocument e w (Issuer p) of
        Inl err \<Rightarrow> (Some err, p, w @ [Discover (Issuer p)])
      | Inr d \<Rightarrow> (None, p\<lparr>UMADiscovery := d\<rparr>, w @ [Discover (Issuer p)]))"

text \<open>
  Modelled from the spec: \<^verbatim>\<open>resourceMatcher.match\<close> is not under src/. The first
  matching template yields the Resource, which is bound to the request; no match leaves
  the request unmodified and yields no Resource.
\<close>

definition rm_match :: "env \<Rightarrow> request \<Rightarrow> request \<times> UMAResource option" where
  "rm_match e r =
     (case matchTemplates e r of
        None \<Rightarrow> (r, None)
      | Some res \<Rightarrow> (r\<lparr>ctxResource := Some res\<rparr>, Some res))"

text \<open>
  \<^verbatim>\<open>middleware.getProvider\<close>, resource_middleware.go:18-37, statement by statement:
  cache lookup, construction, insertion into the cache (line 32), only then discovery
  (line 33). The call site passes the resource store and the client as well; the
  constructor under src/ takes the four arguments modelled. The state is returned on
  every path, since a panic does not undo the writes.
\<close>

definition getProvider ::
  "env \<Rightarrow> state \<Rightarrow> request \<Rightarrow> (panic + request \<times> addr) \<times> state" where
  "getProvider e m r =
     (let pinfo = getProviderInfo e r in
      case providers m (pinfo_Issuer pinfo) of
        Some v \<Rightarrow> (Inr (setProvider r v, v), m)
      | None \<Rightarrow>
          if pinfo_Type pinfo = Keycloak then
            (let a = allocated m;
                 p = newBaseProvider (pinfo_Issuer pinfo) (pinfo_ClientID pinfo)
                       (pinfo_ClientSecret pinfo) (pinfo_KeySet pinfo);
                 m1 = m\<lparr>heap := (heap m)(a := p), allocated := Suc a\<rparr>;
                 m2 = m1\<lparr>providers := (providers m1)(pinfo_Issuer pinfo \<mapsto> a)\<rparr>
             in case DiscoverUMA e (heap m2 a) (trace m2) of (err, p', w') \<Rightarrow>
                  (let m3 = m2\<lparr>heap := (heap m2)(a := p'), trace := w'\<rparr>
                   in case err of
                        Some er \<Rightarrow> (Inl (PanicError er), m3)
                      | None \<Rightarrow> (Inr (setProvider r a, a), m3)))
          else (Inl (PanicError (ErrUnsupportedProviderType (pinfo_Type pinfo))), m))"

text \<open>
  The handler returned by \<^verbatim>\<open>ResourceMiddleware\<close>, resource_middleware.go:85-96. Its
  outcome is either a panic or the call \<^verbatim>\<open>next.ServeHTTP(w, r)\<close> with the request it
  is given. The Resource bound to the request is the object \<^verbatim>\<open>RegisterResource\<close> writes
  the ID to.
\<close>

datatype outcome =
    Panicked panic
  | Served request

definition ServeHTTP :: "env \<Rightarrow> state \<Rightarrow> request \<Rightarrow> outcome \<times> state" where
  "ServeHTTP e m r0 =
     (case rm_match e r0 of (r, resource) \<Rightarrow>
        (case resource of
           None \<Rightarrow> (Served r, m)
         | Some res \<Rightarrow>
             (case getProvider e m r of (got, m1) \<Rightarrow>
                (case got of
                   Inl pn \<Rightarrow> (Panicked pn, m1)
                 | Inr (r1, p) \<Rightarrow>
                     (case RegisterResource e (heap m1 p) res (trace m1) of
                        (err, res', p', w') \<Rightarrow>
                          (let m2 = m1\<lparr>heap := (heap m1)(p := p'), trace := w'\<rparr>
                           in case err of
                                Some er \<Rightarrow> (Panicked (PanicError er), m2)
                              | None \<Rightarrow> (Served (r1\<lparr>ctxResource := Some res'\<rparr>), m2)))))))"

text \<open>Sequential callers: the calls run one after the other on the state the last one left.\<close>

fun RegisterResources ::
  "env \<Rightarrow> baseProvider \<Rightarrow> UMAResource list \<Rightarrow> event list \<Rightarrow>
   (error option \<times> UMAResource) list \<times> baseProvider \<times> event list" where
  "RegisterResources e p [] w = ([], p, w)"
| "RegisterResources e p (r # rs) w =
     (case RegisterResource e p r w of (err, r', p', w') \<Rightarrow>
        (case RegisterResources e p' rs w' of (out, p'', w'') \<Rightarrow>
           ((err, r') # out, p'', w'')))"

fun getProviders :: "env \<Rightarrow> state \<Rightarrow> request list \<Rightarrow> state" where
  "getProviders e m [] = m"
| "getProviders e m (r # rs) = getProviders e (snd (getProvider e m r)) rs"

text \<open>The issuers of the Provider objects constructed so far, in order of construction.\<close>

definition constructedFor :: "state \<Rightarrow> string list" where
  "constructedFor m = map (\<lambda>a. Issuer (heap m a)) [0..<allocated m]"

section \<open>The Keycloak client of package rp\<close>

record Credentials =
  IDToken :: string
  AccessToken :: string
  RefreshToken :: string

type_synonym ClaimTokenFormat = string

definition AccessTokenFormat :: ClaimTokenFormat where
  "AccessTokenFormat = ''urn:ietf:params:oauth:token-type:jwt''"

definition IDTokenFormat :: ClaimTokenFormat where
  "IDTokenFormat = ''https://openid.net/specs/openid-connect-core-1_0.html#IDToken''"

record RPTRequest =
  Ticket :: string
  ClaimToken :: string
  ClaimTokenFormat :: ClaimTokenFormat
  RPT :: string
  Permission :: "string list"
  Audience :: string
  ResponseIncludeResourceName :: bool
  ResponsePermissionsLimit :: int
  SubmitRequest :: bool

text \<open>
  \<^verbatim>\<open>KeycloakClient\<close>, keycloak.go:12. Of the OIDC provider only the token endpoint is
  read (\<^verbatim>\<open>kc.oidc.Endpoint().TokenURL\<close>); the HTTP client is the server of the
  environment.
\<close>

record KeycloakClient =
  oidc_TokenURL :: string
  clientID :: string
  clientSecret :: string

fun digits :: "nat \<Rightarrow> string" where
  "digits n =
     (if n < 10 then [''0123456789'' ! n]
      else digits (n div 10) @ [''0123456789'' ! (n mod 10)])"

declare digits.simps [simp del]

definition Itoa :: "int \<Rightarrow> string" where
  "Itoa i = (if i < 0 then CHR ''-'' # digits (nat (- i)) else digits (nat i))"

definition addValues ::
  "string \<Rightarrow> string list \<Rightarrow> (string \<rightharpoonup> string list) \<Rightarrow> (string \<rightharpoonup> string list)" where
  "addValues k vs m = (if vs = [] then m else m(k \<mapsto> vs))"

definition stringValues :: "string \<Rightarrow> string list" where
  "stringValues s = (if s = [] then [] else [s])"

definition boolValues :: "bool \<Rightarrow> string list" where
  "boolValues b = (if b then [''true''] else [])"

definition intValues :: "int \<Rightarrow> string list" where
  "intValues i = (if i = 0 then [] else [Itoa i])"

text \<open>
  Modelled from the spec: \<^verbatim>\<open>urlencode.ToValues\<close> is not under src/. It turns the
  request into form values; a parameter that is not provided (a zero field) is omitted,
  not sent empty. The key of \<^verbatim>\<open>RPT\<close> is its \<^verbatim>\<open>url\<close> tag in the source; the other
  keys are the parameter names the field comments use, in lower snake case.
\<close>

definition ToValues :: "RPTRequest \<Rightarrow> error + (string \<rightharpoonup> string list)" where
  "ToValues rq =
     Inr (addValues ''submit_request'' (boolValues (SubmitRequest rq))
         (addValues ''response_permissions_limit'' (intValues (ResponsePermissionsLimit rq))
         (addValues ''response_include_resource_name''
            (boolValues (ResponseIncludeResourceName rq))
         (addValues ''audience'' (stringValues (Audience rq))
         (addValues ''permission'' (Permission rq)
         (addValues ''rpt'' (stringValues (RPT rq))
         (addValues ''claim_token_format'' (stringValues (ClaimTokenFormat rq))
         (addValues ''claim_token'' (stringValues (ClaimToken rq))
         (addValues ''ticket'' (stringValues (Ticket rq)) Map.empty)))))))))"

text \<open>
  Modelled from the spec: \<^verbatim>\<open>httputil.PostFormUrlencoded\<close> is not under src/. It POSTs
  the values form-urlencoded to the URL, after the caller's hook (if any) has edited the
  request.
\<close>

definition PostFormUrlencoded ::
  "env \<Rightarrow> string \<Rightarrow> (http_request \<Rightarrow> http_request) option \<Rightarrow> (string \<rightharpoonup> string list) \<Rightarrow>
   event list \<Rightarrow> (error + http_response) \<times> event list" where
  "PostFormUrlencoded e url modify vals w =
     (let req0 = \<lparr>Method = ''POST'', URL = url,
                  Header = [''Content-Type'' \<mapsto> ''application/x-www-form-urlencoded''],
                  Body = Form vals\<rparr>;
          req = (case modify of None \<Rightarrow> req0 | Some f \<Rightarrow> f req0)
      in (roundTrip e w req, w @ [Request req]))"

text \<open>
  Modelled from the spec: \<^verbatim>\<open>httputil.DecodeJSONResponse\<close> is not under src/. The
  members decoded into \<^verbatim>\<open>Credentials\<close> are named by its \<^verbatim>\<open>json\<close> tags, keycloak.go:33.
\<close>

definition decode_Credentials :: "http_response \<Rightarrow> error + Credentials" where
  "decode_Credentials resp =
     (case stringField ''id_token'' (RespBody resp) of
        Inl err \<Rightarrow> Inl err
      | Inr i \<Rightarrow>
          (case stringField ''access_token'' (RespBody resp) of
             Inl err \<Rightarrow> Inl err
           | Inr a \<Rightarrow>
               (case stringField ''refresh_token'' (RespBody resp) of
                  Inl err \<Rightarrow> Inl err
                | Inr rt \<Rightarrow> Inr \<lparr>IDToken = i, AccessToken = a, RefreshToken = rt\<rparr>)))"

text \<open>\<^verbatim>\<open>KeycloakClient.RequestRPT\<close>, keycloak.go:146.\<close>

definition RequestRPT ::
  "env \<Rightarrow> KeycloakClient \<Rightarrow> string \<Rightarrow> RPTRequest \<Rightarrow> event list \<Rightarrow>
   (error + string) \<times> event list" where
  "RequestRPT e kc accessToken request w =
     (case ToValues request of
        Inl err \<Rightarrow> (Inl err, w)
      | Inr vals \<Rightarrow>
          (let vals' = vals(''grant_type'' \<mapsto> [''urn:ietf:params:oauth:grant-type:uma-ticket''])
           in case PostFormUrlencoded e (oidc_TokenURL kc)
                     (Some (\<lambda>r. r\<lparr>Header := (Header r)(''Authorization'' \<mapsto>
                                                          ''Bearer '' @ accessToken)\<rparr>))
                     vals' w of
                (res, w') \<Rightarrow>
                  (case res of
                     Inl err \<Rightarrow> (Inl err, w')
                   | Inr resp \<Rightarrow>
                       (case decode_Credentials resp of
                          Inl err \<Rightarrow> (Inl err, w')
                        | Inr tok \<Rightarrow> (Inr (AccessToken tok), w')))))"

text \<open>The form values \<^verbatim>\<open>ToValues\<close> yields for a request.\<close>

definition formOf :: "RPTRequest \<Rightarrow> string \<rightharpoonup> string list" where
  "formOf rq = (case ToValues rq of Inl err \<Rightarrow> Map.empty | Inr vals \<Rightarrow> vals)"

section \<open>Invariant of the provider cache\<close>

text \<open>
  Every cache entry points to a constructed Provider of that issuer, and every constructed
  Provider is the cache entry of its issuer.
\<close>

definition cache_ok :: "state \<Rightarrow> bool" where
  "cache_ok m \<longleftrightarrow>
     (\<forall>i a. providers m i = Some a \<longrightarrow> a < allocated m \<and> Issuer (heap m a) = i) \<and>
     (\<forall>a<allocated m. providers m (Issuer (heap m a)) = Some a)"

section \<open>Example inputs\<close>

definition exampleInfo :: ProviderInfo where
  "exampleInfo =
     \<lparr>pinfo_Issuer = ''https://as.example'',
      pinfo_Type = Keycloak,
      pinfo_ClientID = ''client'',
      pinfo_ClientSecret = ''secret'',
      pinfo_KeySet = nilKeySet\<rparr>"

definition exampleDiscovery :: UMADiscovery where
  "exampleDiscovery =
     \<lparr>ResourceRegistrationEndpoint = ''https://as.example/rsrc'',
      PermissionEndpoint = ''https://as.example/perm'',
      TokenEndpoint = ''https://as.example/token''\<rparr>"

definition usersResource :: UMAResource where
  "usersResource =
     \<lparr>ResourceType = \<lparr>Type = ''users'', IconUri = [], ResourceScopes = [''read'']\<rparr>,
      ID = [],
      Name = ''Users'',
      URI = ''/users''\<rparr>"

definition usersRequest :: request where
  "usersRequest = \<lparr>Path = ''/users'', ctxProvider = None, ctxResource = None\<rparr>"

definition unrelatedRequest :: request where
  "unrelatedRequest = \<lparr>Path = ''/unrelated'', ctxProvider = None, ctxResource = None\<rparr>"

text \<open>
  A server with one template, \<^verbatim>\<open>/users\<close>, a given provider info, a discovery answer
  that may depend on what was sent before, and one answer to every protocol request.
\<close>

definition exampleServer ::
  "ProviderInfo \<Rightarrow> (event list \<Rightarrow> error + UMADiscovery) \<Rightarrow> (error + http_response) \<Rightarrow> env" where
  "exampleServer pinfo d a =
     \<lparr>getProviderInfo = (\<lambda>r. pinfo),
      matchTemplates = (\<lambda>r. if Path r = ''/users'' then Some usersResource else None),
      discoveryDocument = (\<lambda>w i. d w),
      roundTrip = (\<lambda>w req. a)\<rparr>"

text \<open>Discovery that fails on the first fetch and would succeed on any later one.\<close>

definition flakyDiscovery :: "event list \<Rightarrow> error + UMADiscovery" where
  "flakyDiscovery w =
     (if w = [] then Inl (ErrDiscovery ''connection refused'') else Inr exampleDiscovery)"

definition discoveredProvider :: baseProvider where
  "discoveredProvider =
     (newBaseProvider ''https://as.example'' ''client'' ''secret'' nilKeySet)
       \<lparr>UMADiscovery := exampleDiscovery\<rparr>"

definition exampleClient :: KeycloakClient where
  "exampleClient =
     \<lparr>oidc_TokenURL = ''https://as.example/token'', clientID = ''client'',
      clientSecret = ''secret''\<rparr>"

definition okResponse :: http_response where
  "okResponse =
     \<lparr>StatusCode = 201,
      RespBody = Some (JObj [(''_id'', JStr ''r-1''), (''ticket'', JStr ''t-1''),
                             (''access_token'', JStr ''rpt-1'')])\<rparr>"

definition deniedResponse :: http_response where
  "deniedResponse = \<lparr>StatusCode = 403, RespBody = None\<rparr>"

definition okServer :: env where
  "okServer = exampleServer exampleInfo (\<lambda>w. Inr exampleDiscovery) (Inr okResponse)"

definition deniedServer :: env where
  "deniedServer = exampleServer exampleInfo (\<lambda>w. Inr exampleDiscovery) (Inr deniedResponse)"

definition flakyServer :: env where
  "flakyServer = exampleServer exampleInfo flakyDiscovery (Inr okResponse)"

definition unsupportedServer :: env where
  "unsupportedServer =
     exampleServer (exampleInfo\<lparr>pinfo_Type := ''auth0''\<rparr>) (\<lambda>w. Inr exampleDiscovery)
       (Inr okResponse)"

definition matchedUsersRequest :: request where
  "matchedUsersRequest = usersRequest\<lparr>ctxResource := Some usersResource\<rparr>"

definition registrationRequest :: http_request where
  "registrationRequest =
     \<lparr>Method = ''POST'', URL = ''https://as.example/rsrc'',
      Header = [''Content-Type'' \<mapsto> ''application/json''],
      Body = JSON (resource_json usersResource)\<rparr>"

definition ticketRequest :: http_request where
  "ticketRequest =
     \<lparr>Method = ''POST'', URL = ''https://as.example/perm'',
      Header = [''Content-Type'' \<mapsto> ''application/json''],
      Body = JSON (JArr [JObj [(''resource_id'', JStr ''abc''),
                               (''resource_scopes'', JArr [JStr ''read''])]])\<rparr>"

definition exampleRPTRequest :: RPTRequest where
  "exampleRPTRequest =
     \<lparr>Ticket = [], ClaimToken = [], ClaimTokenFormat = [], RPT = ''old-rpt'',
      Permission = [''abc#read''], Audience = [], ResponseIncludeResourceName = False,
      ResponsePermissionsLimit = 0, SubmitRequest = False\<rparr>"

section \<open>Lemmas about the base provider\<close>

lemmas example_defs = okServer_def deniedServer_def flakyServer_def unsupportedServer_def
  exampleServer_def exampleInfo_def exampleDiscovery_def usersResource_def usersRequest_def
  unrelatedRequest_def flakyDiscovery_def discoveredProvider_def exampleClient_def
  okResponse_def deniedResponse_def matchedUsersRequest_def registrationRequest_def
  ticketRequest_def exampleRPTRequest_def newBaseProvider_def newMiddleware_def Keycloak_def

lemma ensure2XX_Some:
  "\<not> (200 \<le> StatusCode resp \<and> StatusCode resp < 300) \<Longrightarrow>
   ensure2XX resp = Some (ErrStatus (StatusCode resp) (RespBody resp))"
  by (simp add: ensure2XX_def)

lemma RegisterResource_cached:
  "registeredResources p (Name r) = Some s \<Longrightarrow>
   RegisterResource e p r w = (None, r\<lparr>ID := s\<rparr>, p, w)"
  by (simp add: RegisterResource_def registerResource_def)

lemma RegisterResource_fresh_ok:
  assumes "registeredResources p (Name r) = None"
    and "RegisterResource e p r w = (None, r1, p1, w1)"
  shows "\<exists>req. jsonRequest ''POST'' (ResourceRegistrationEndpoint (UMADiscovery p))
             (resource_json r) = Inr req \<and>
           w1 = w @ [Request req] \<and>
           r1 = r\<lparr>ID := ID r1\<rparr> \<and>
           p1 = p\<lparr>registeredResources := (registeredResources p)(Name r \<mapsto> ID r1)\<rparr>"
  using assms
  by (auto simp: RegisterResource_def registerResource_def register_def DoRequest_def
      split: sum.splits option.splits prod.splits)

lemma RegisterResources_cached:
  "registeredResources p n = Some s \<Longrightarrow> \<forall>x\<in>set rs. Name x = n \<Longrightarrow>
   RegisterResources e p rs w = (map (\<lambda>x. (None, x\<lparr>ID := s\<rparr>)) rs, p, w)"
  by (induction rs) (simp_all add: RegisterResource_cached)

text \<open>
  C2. On one Provider, N sequential calls of \<^verbatim>\<open>RegisterResource\<close> for resources of one
  Name, the first of which finds the Name not cached and succeeds, send exactly one
  request, the registration POST of the first call; every later call sends nothing,
  returns \<^verbatim>\<open>nil\<close> and sets \<^verbatim>\<open>resource.ID\<close> to the ID the first call obtained.
\<close>

theorem RegisterResource_idempotent:
  assumes fresh: "registeredResources p (Name r) = None"
    and same: "\<forall>x\<in>set rs. Name x = Name r"
    and first: "RegisterResource e p r w = (None, r1, p1, w1)"
  shows "\<exists>req. Method req = ''POST'' \<and>
           URL req = ResourceRegistrationEndpoint (UMADiscovery p) \<and>
           w1 = w @ [Request req] \<and>
           RegisterResources e p (r # rs) w =
             ((None, r1) # map (\<lambda>x. (None, x\<lparr>ID := ID r1\<rparr>)) rs, p1, w @ [Request req])"
proof -
  from RegisterResource_fresh_ok [OF fresh first] obtain req where
    req: "jsonRequest ''POST'' (ResourceRegistrationEndpoint (UMADiscovery p))
             (resource_json r) = Inr req"
    and w1: "w1 = w @ [Request req]"
    and p1: "p1 = p\<lparr>registeredResources := (registeredResources p)(Name r \<mapsto> ID r1)\<rparr>"
    by blast
  have cached: "registeredResources p1 (Name r) = Some (ID r1)"
    by (simp add: p1)
  have rest: "RegisterResources e p1 rs w1 = (map (\<lambda>x. (None, x\<lparr>ID := ID r1\<rparr>)) rs, p1, w1)"
    by (rule RegisterResources_cached [OF cached same])
  have "Method req = ''POST'' \<and> URL req = ResourceRegistrationEndpoint (UMADiscovery p)"
    using req by (auto simp: jsonRequest_def)
  moreover have "RegisterResources e p (r # rs) w =
      ((None, r1) # map (\<lambda>x. (None, x\<lparr>ID := ID r1\<rparr>)) rs, p1, w @ [Request req])"
    using first rest w1 by simp
  ultimately show ?thesis using w1 by blast
qed

theorem idempotent_witness:
  "\<exists>req. Method req = ''POST'' \<and> URL req = ''https://as.example/rsrc'' \<and>
     RegisterResources okServer discoveredProvider
         [usersResource, usersResource, usersResource\<lparr>URI := ''/users/''\<rparr>] [] =
       ([(None, usersResource\<lparr>ID := ''r-1''\<rparr>),
         (None, usersResource\<lparr>ID := ''r-1''\<rparr>),
         (None, usersResource\<lparr>URI := ''/users/'', ID := ''r-1''\<rparr>)],
        discoveredProvider\<lparr>registeredResources := [''Users'' \<mapsto> ''r-1'']\<rparr>,
        [Request req])"
proof -
  have fresh: "registeredResources discoveredProvider (Name usersResource) = None"
    by (simp add: example_defs)
  have same: "\<forall>x\<in>set [usersResource, usersResource\<lparr>URI := ''/users/''\<rparr>].
      Name x = Name usersResource"
    by simp
  have first: "RegisterResource okServer discoveredProvider usersResource [] =
      (None, usersResource\<lparr>ID := ''r-1''\<rparr>,
       discoveredProvider\<lparr>registeredResources := [''Users'' \<mapsto> ''r-1'']\<rparr>,
       [Request registrationRequest])"
    by (simp add: RegisterResource_def registerResource_def register_def jsonRequest_def
        DoRequest_def ensure2XX_def decode_createResourceResponse_def stringField_def
        example_defs)
  from RegisterResource_idempotent [OF fresh same first]
  show ?thesis by (simp add: example_defs)
qed

text \<open>
  C3. When the server answers a registration or permission-ticket request with a status
  outside 200..299, the call returns the error carrying that status (and body), and
  leaves the resource, its ID included, and the provider, its \<^verbatim>\<open>registeredResources\<close>
  included, exactly as they were.
\<close>

theorem non2XX_leaves_state:
  assumes status: "\<not> (200 \<le> StatusCode resp \<and> StatusCode resp < 300)"
  shows "(registeredResources p (Name resource) = None \<and>
          jsonRequest ''POST'' (ResourceRegistrationEndpoint (UMADiscovery p))
             (resource_json resource) = Inr req \<and>
          roundTrip e w req = Inr resp \<longrightarrow>
          RegisterResource e p resource w =
            (Some (ErrStatus (StatusCode resp) (RespBody resp)), resource, p,
             w @ [Request req])) \<and>
         (jsonRequest ''POST'' (PermissionEndpoint (UMADiscovery p))
             (JArr (map permissionRequest_json
                [\<lparr>ResourceID = resourceID, req_ResourceScopes = scopes\<rparr>])) = Inr req' \<and>
          roundTrip e w req' = Inr resp \<longrightarrow>
          RequestPermissionTicket e p resourceID scopes w =
            (Inl (ErrStatus (StatusCode resp) (RespBody resp)), p, w @ [Request req']))"
  using ensure2XX_Some [OF status]
  by (simp add: RegisterResource_def registerResource_def register_def DoRequest_def
      RequestPermissionTicket_def)

theorem non2XX_witness:
  "RegisterResource deniedServer discoveredProvider usersResource [] =
     (Some (ErrStatus 403 None), usersResource, discoveredProvider,
      [Request registrationRequest]) \<and>
   RequestPermissionTicket deniedServer discoveredProvider ''abc'' (Some [''read'']) [] =
     (Inl (ErrStatus 403 None), discoveredProvider, [Request ticketRequest])"
  using non2XX_leaves_state [of deniedResponse discoveredProvider usersResource
      registrationRequest deniedServer "[]" "''abc''" "Some [''read'']" ticketRequest]
  by (simp add: example_defs jsonRequest_def permissionRequest_json_def stringSlice_json_def)



section \<open>Lemmas about the Keycloak client\<close>

lemma addValues_string:
  "addValues k (stringValues s) m k' = (if k' = k \<and> s \<noteq> [] then Some [s] else m k')"
  by (simp add: addValues_def stringValues_def)

lemma addValues_bool:
  "addValues k (boolValues b) m k' = (if k' = k \<and> b then Some [''true''] else m k')"
  by (simp add: addValues_def boolValues_def)

lemma addValues_int:
  "addValues k (intValues i) m k' = (if k' = k \<and> i \<noteq> 0 then Some [Itoa i] else m k')"
  by (simp add: addValues_def intValues_def)

lemma addValues_Permission:
  "addValues k (Permission rq) m k' =
     (if k' = k \<and> Permission rq \<noteq> [] then Some (Permission rq) else m k')"
  by (simp add: addValues_def)

lemmas addValues_lookup = addValues_string addValues_bool addValues_int addValues_Permission

lemma ToValues_formOf: "ToValues rq = Inr (formOf rq)"
  by (simp add: formOf_def ToValues_def)

lemma formOf_ticket:
  "formOf rq ''ticket'' = (if Ticket rq = [] then None else Some [Ticket rq])"
  by (simp add: formOf_def ToValues_def addValues_lookup)

lemma formOf_claim_token:
  "formOf rq ''claim_token'' = (if ClaimToken rq = [] then None else Some [ClaimToken rq])"
  by (simp add: formOf_def ToValues_def addValues_lookup)

lemma formOf_claim_token_format:
  "formOf rq ''claim_token_format'' =
     (if ClaimTokenFormat rq = [] then None else Some [ClaimTokenFormat rq])"
  by (simp add: formOf_def ToValues_def addValues_lookup)

lemma formOf_rpt:
  "formOf rq ''rpt'' = (if RPT rq = [] then None else Some [RPT rq])"
  by (simp add: formOf_def ToValues_def addValues_lookup)

lemma formOf_permission:
  "formOf rq ''permission'' = (if Permission rq = [] then None else Some (Permission rq))"
  by (simp add: formOf_def ToValues_def addValues_lookup)

lemma formOf_audience:
  "formOf rq ''audience'' = (if Audience rq = [] then None else Some [Audience rq])"
  by (simp add: formOf_def ToValues_def addValues_lookup)

lemma formOf_include_name:
  "formOf rq ''response_include_resource_name'' =
     (if ResponseIncludeResourceName rq then Some [''true''] else None)"
  by (simp add: formOf_def ToValues_def addValues_lookup)

lemma formOf_limit:
  "formOf rq ''response_permissions_limit'' =
     (if ResponsePermissionsLimit rq = 0 then None
      else Some [Itoa (ResponsePermissionsLimit rq)])"
  by (simp add: formOf_def ToValues_def addValues_lookup)

lemma formOf_submit_request:
  "formOf rq ''submit_request'' = (if SubmitRequest rq then Some [''true''] else None)"
  by (simp add: formOf_def ToValues_def addValues_lookup)

lemma formOf_grant_type: "formOf rq ''grant_type'' = None"
  by (simp add: formOf_def ToValues_def addValues_lookup)

lemma formOf_no_empty: "formOf rq k \<noteq> Some []"
  by (simp add: formOf_def ToValues_def addValues_lookup)

lemma formOf_other:
  "k \<notin> {''ticket'', ''claim_token'', ''claim_token_format'', ''rpt'', ''permission'',
         ''audience'', ''response_include_resource_name'', ''response_permissions_limit'',
         ''submit_request''} \<Longrightarrow> formOf rq k = None"
  by (simp add: formOf_def ToValues_def addValues_lookup)

lemma RequestRPT_unfold:
  "RequestRPT e kc accessToken rq w =
     (let req = \<lparr>Method = ''POST'', URL = oidc_TokenURL kc,
                 Header = [''Content-Type'' \<mapsto> ''application/x-www-form-urlencoded'',
                           ''Authorization'' \<mapsto> ''Bearer '' @ accessToken],
                 Body = Form ((formOf rq)(''grant_type'' \<mapsto>
                          [''urn:ietf:params:oauth:grant-type:uma-ticket'']))\<rparr>
      in case roundTrip e w req of
           Inl err \<Rightarrow> (Inl err, w @ [Request req])
         | Inr resp \<Rightarrow>
             (case decode_Credentials resp of
                Inl err \<Rightarrow> (Inl err, w @ [Request req])
              | Inr tok \<Rightarrow> (Inr (AccessToken tok), w @ [Request req])))"
  by (simp add: RequestRPT_def ToValues_formOf PostFormUrlencoded_def Let_def
      split: sum.splits)

lemma decode_Credentials_access_token:
  "decode_Credentials resp = Inr tok \<Longrightarrow>
   stringField ''access_token'' (RespBody resp) = Inr (AccessToken tok)"
  by (auto simp: decode_Credentials_def split: sum.splits)

text \<open>
  C6. \<^verbatim>\<open>RequestRPT\<close> sends exactly one request: a form-urlencoded POST to the token
  endpoint, with the bearer access token in the \<open>Authorization\<close> header and
  \<open>grant_type\<close> set to the UMA ticket grant. Every field of the request that is set is in
  the form under its key, every field that is unset is absent, and no key carries an
  empty value list. When the answer decodes, its \<open>access_token\<close>
  is returned as it is.
\<close>

theorem RequestRPT_exchange:
  "let req = \<lparr>Method = ''POST'', URL = oidc_TokenURL kc,
               Header = [''Content-Type'' \<mapsto> ''application/x-www-form-urlencoded'',
                         ''Authorization'' \<mapsto> ''Bearer '' @ accessToken],
               Body = Form ((formOf rq)(''grant_type'' \<mapsto>
                        [''urn:ietf:params:oauth:grant-type:uma-ticket'']))\<rparr>
   in snd (RequestRPT e kc accessToken rq w) = w @ [Request req] \<and>
      formOf rq ''ticket'' = (if Ticket rq = [] then None else Some [Ticket rq]) \<and>
      formOf rq ''claim_token'' = (if ClaimToken rq = [] then None else Some [ClaimToken rq]) \<and>
      formOf rq ''claim_token_format'' =
        (if ClaimTokenFormat rq = [] then None else Some [ClaimTokenFormat rq]) \<and>
      formOf rq ''rpt'' = (if RPT rq = [] then None else Some [RPT rq]) \<and>
      formOf rq ''permission'' = (if Permission rq = [] then None else Some (Permission rq)) \<and>
      formOf rq ''audience'' = (if Audience rq = [] then None else Some [Audience rq]) \<and>
      formOf rq ''response_include_resource_name'' =
        (if ResponseIncludeResourceName rq then Some [''true''] else None) \<and>
      formOf rq ''response_permissions_limit'' =
        (if ResponsePermissionsLimit rq = 0 then None
         else Some [Itoa (ResponsePermissionsLimit rq)]) \<and>
      formOf rq ''submit_request'' = (if SubmitRequest rq then Some [''true''] else None) \<and>
      formOf rq ''grant_type'' = None \<and>
      formOf rq k \<noteq> Some [] \<and>
      (roundTrip e w req = Inr resp \<and> decode_Credentials resp = Inr tok \<longrightarrow>
         fst (RequestRPT e kc accessToken rq w) = Inr (AccessToken tok) \<and>
         stringField ''access_token'' (RespBody resp) = Inr (AccessToken tok))"
  unfolding Let_def
proof (intro conjI impI)
  show "snd (RequestRPT e kc accessToken rq w) = w @
      [Request \<lparr>Method = ''POST'', URL = oidc_TokenURL kc,
               Header = [''Content-Type'' \<mapsto> ''application/x-www-form-urlencoded'',
                         ''Authorization'' \<mapsto> ''Bearer '' @ accessToken],
               Body = Form ((formOf rq)(''grant_type'' \<mapsto>
                        [''urn:ietf:params:oauth:grant-type:uma-ticket'']))\<rparr>]"
    by (simp add: RequestRPT_unfold Let_def split: sum.splits)
next
  assume a: "roundTrip e w \<lparr>Method = ''POST'', URL = oidc_TokenURL kc,
               Header = [''Content-Type'' \<mapsto> ''application/x-www-form-urlencoded'',
                         ''Authorization'' \<mapsto> ''Bearer '' @ accessToken],
               Body = Form ((formOf rq)(''grant_type'' \<mapsto>
                        [''urn:ietf:params:oauth:grant-type:uma-ticket'']))\<rparr> = Inr resp \<and>
            decode_Credentials resp = Inr tok"
  then show "fst (RequestRPT e kc accessToken rq w) = Inr (AccessToken tok)"
    by (simp add: RequestRPT_unfold Let_def)
  from a show "stringField ''access_token'' (RespBody resp) = Inr (AccessToken tok)"
    by (simp add: decode_Credentials_access_token)
qed (simp_all only: formOf_ticket formOf_claim_token formOf_claim_token_format formOf_rpt
      formOf_permission formOf_audience formOf_include_name formOf_limit
      formOf_submit_request formOf_grant_type formOf_no_empty not_False_eq_True)

theorem exchange_witness:
  "formOf exampleRPTRequest ''rpt'' = Some [''old-rpt''] \<and>
   formOf exampleRPTRequest ''permission'' = Some [''abc#read''] \<and>
   formOf exampleRPTRequest ''ticket'' = None \<and>
   fst (RequestRPT okServer exampleClient ''token'' exampleRPTRequest []) = Inr ''rpt-1''"
  using RequestRPT_exchange [where kc = exampleClient and accessToken = "''token''"
      and rq = exampleRPTRequest and e = okServer and w = "[]" and k = "''rpt''"
      and resp = okResponse
      and tok = "\<lparr>IDToken = [], AccessToken = ''rpt-1'', RefreshToken = []\<rparr>"]
  by (simp add: example_defs Let_def decode_Credentials_def stringField_def)

section \<open>Lemmas about the middleware\<close>

lemma getProvider_hit:
  "providers m (pinfo_Issuer (getProviderInfo e r)) = Some v \<Longrightarrow>
   getProvider e m r = (Inr (setProvider r v, v), m)"
  by (simp add: getProvider_def Let_def)

lemma getProvider_unsupported:
  "providers m (pinfo_Issuer (getProviderInfo e r)) = None \<Longrightarrow>
   pinfo_Type (getProviderInfo e r) \<noteq> Keycloak \<Longrightarrow>
   getProvider e m r =
     (Inl (PanicError (ErrUnsupportedProviderType (pinfo_Type (getProviderInfo e r)))), m)"
  by (simp add: getProvider_def Let_def)

lemma DiscoverUMA_Issuer:
  "DiscoverUMA e p w = (err, p', w') \<Longrightarrow> Issuer p' = Issuer p"
  by (auto simp: DiscoverUMA_def split: sum.splits)

lemma getProvider_discovery_fails:
  "providers m (pinfo_Issuer (getProviderInfo e r)) = None \<Longrightarrow>
   pinfo_Type (getProviderInfo e r) = Keycloak \<Longrightarrow>
   discoveryDocument e (trace m) (pinfo_Issuer (getProviderInfo e r)) = Inl err \<Longrightarrow>
   fst (getProvider e m r) = Inl (PanicError err)"
  by (simp add: getProvider_def Let_def DiscoverUMA_def newBaseProvider_def)

lemma getProvider_keeps_entries:
  "providers m i = Some v \<Longrightarrow> providers (snd (getProvider e m r)) i = Some v"
  by (auto simp: getProvider_def Let_def split: option.splits prod.splits)

lemma getProviders_keeps_entries:
  "providers m i = Some v \<Longrightarrow> providers (getProviders e m rs) i = Some v"
  by (induction rs arbitrary: m) (simp_all add: getProvider_keeps_entries)

lemma cache_ok_newMiddleware: "cache_ok newMiddleware"
  by (simp add: cache_ok_def newMiddleware_def)

lemma cache_ok_getProvider:
  assumes "cache_ok m"
  shows "cache_ok (snd (getProvider e m r))"
proof (cases "providers m (pinfo_Issuer (getProviderInfo e r))")
  case (Some v)
  then show ?thesis using assms by (simp add: getProvider_hit)
next
  case None
  show ?thesis
  proof (cases "pinfo_Type (getProviderInfo e r) = Keycloak")
    case False
    then show ?thesis using assms None by (simp add: getProvider_unsupported)
  next
    case True
    obtain err p' w' where d: "DiscoverUMA e (newBaseProvider (pinfo_Issuer (getProviderInfo e r))
        (pinfo_ClientID (getProviderInfo e r)) (pinfo_ClientSecret (getProviderInfo e r))
        (pinfo_KeySet (getProviderInfo e r))) (trace m) = (err, p', w')"
      by (cases "DiscoverUMA e (newBaseProvider (pinfo_Issuer (getProviderInfo e r))
        (pinfo_ClientID (getProviderInfo e r)) (pinfo_ClientSecret (getProviderInfo e r))
        (pinfo_KeySet (getProviderInfo e r))) (trace m)") auto
    have iss: "Issuer p' = pinfo_Issuer (getProviderInfo e r)"
      using DiscoverUMA_Issuer [OF d] by (simp add: newBaseProvider_def)
    have m': "snd (getProvider e m r) =
        m\<lparr>heap := (heap m)(allocated m := p'), allocated := Suc (allocated m),
          providers := (providers m)(pinfo_Issuer (getProviderInfo e r) \<mapsto> allocated m),
          trace := w'\<rparr>"
      using None True d by (simp add: getProvider_def Let_def split: option.splits)
    define I where "I = pinfo_Issuer (getProviderInfo e r)"
    define n where "n = allocated m"
    have old1: "\<And>i a. providers m i = Some a \<Longrightarrow> a < n \<and> Issuer (heap m a) = i"
      using assms unfolding cache_ok_def n_def by blast
    have old2: "\<And>a. a < n \<Longrightarrow> providers m (Issuer (heap m a)) = Some a"
      using assms unfolding cache_ok_def n_def by blast
    have fresh: "providers m I = None"
      using None by (simp add: I_def)
    have new1: "a < Suc n \<and> Issuer (((heap m)(n := p')) a) = i"
      if "((providers m)(I \<mapsto> n)) i = Some a" for i a
    proof (cases "i = I")
      case True
      with that have "a = n" by simp
      then show ?thesis using True iss by (simp add: I_def)
    next
      case False
      with that have "providers m i = Some a" by simp
      from old1 [OF this] show ?thesis by auto
    qed
    have new2: "((providers m)(I \<mapsto> n)) (Issuer (((heap m)(n := p')) a)) = Some a"
      if "a < Suc n" for a
    proof (cases "a = n")
      case True
      then show ?thesis using iss by (simp add: I_def)
    next
      case False
      with that have lt: "a < n" by simp
      from old2 [OF lt] fresh have "Issuer (heap m a) \<noteq> I" by auto
      then show ?thesis using False old2 [OF lt] by simp
    qed
    show ?thesis
      unfolding m' cache_ok_def using new1 new2
      by (simp add: I_def n_def)
  qed
qed

lemma cache_ok_getProviders:
  "cache_ok m \<Longrightarrow> cache_ok (getProviders e m rs)"
  by (induction rs arbitrary: m) (simp_all add: cache_ok_getProvider)

lemma cache_ok_distinct:
  assumes "cache_ok m"
  shows "distinct (constructedFor m)"
proof -
  have "inj_on (\<lambda>a. Issuer (heap m a)) (set [0..<allocated m])"
  proof (rule inj_onI)
    fix a b
    assume "a \<in> set [0..<allocated m]" "b \<in> set [0..<allocated m]"
      and eq: "Issuer (heap m a) = Issuer (heap m b)"
    then have "a < allocated m" "b < allocated m" by simp_all
    with assms have "providers m (Issuer (heap m a)) = Some a"
      "providers m (Issuer (heap m b)) = Some b"
      unfolding cache_ok_def by blast+
    then have "Some a = providers m (Issuer (heap m b))"
      using eq by (simp only:)
    then show "a = b"
      using \<open>providers m (Issuer (heap m b)) = Some b\<close> by (simp only: option.inject)
  qed
  then show ?thesis
    by (simp add: constructedFor_def distinct_map)
qed

text \<open>
  C1. What the code does when discovery fails for an issuer not yet cached: the Provider
  was put in the cache before \<^verbatim>\<open>DiscoverUMA\<close> ran, so after the panic the cache holds
  the undiscovered Provider. A later request for the issuer is bound to it and no
  discovery is attempted again, although a second fetch would have succeeded here.
\<close>

theorem getProvider_caches_failed_provider:
  "fst (getProvider flakyServer newMiddleware usersRequest) =
     Inl (PanicError (ErrDiscovery ''connection refused'')) \<and>
   providers (snd (getProvider flakyServer newMiddleware usersRequest)) ''https://as.example'' =
     Some 0 \<and>
   trace (snd (getProvider flakyServer newMiddleware usersRequest)) =
     [Discover ''https://as.example''] \<and>
   getProvider flakyServer (snd (getProvider flakyServer newMiddleware usersRequest))
       usersRequest =
     (Inr (setProvider usersRequest 0, 0),
      snd (getProvider flakyServer newMiddleware usersRequest)) \<and>
   UMADiscovery (heap (snd (getProvider flakyServer newMiddleware usersRequest)) 0) =
     zeroDiscovery"
  by (simp add: getProvider_def DiscoverUMA_def Let_def example_defs)

text \<open>
  C8. After any sequence of \<^verbatim>\<open>getProvider\<close> calls on a new middleware, the Providers
  constructed are for pairwise distinct issuers; an issuer present in the cache stays
  bound to the same Provider through every later call; and a request for a cached issuer
  is bound to that Provider with the state unchanged: nothing constructed, no
  \<^verbatim>\<open>DiscoverUMA\<close>.
\<close>

theorem one_provider_per_issuer:
  "distinct (constructedFor (getProviders e newMiddleware rs)) \<and>
   (providers m i = Some v \<longrightarrow> providers (getProviders e m rs) i = Some v) \<and>
   (providers m (pinfo_Issuer (getProviderInfo e r)) = Some v \<longrightarrow>
      getProvider e m r = (Inr (setProvider r v, v), m))"
proof (intro conjI impI)
  show "distinct (constructedFor (getProviders e newMiddleware rs))"
    by (rule cache_ok_distinct [OF cache_ok_getProviders [OF cache_ok_newMiddleware]])
next
  assume "providers m i = Some v"
  then show "providers (getProviders e m rs) i = Some v"
    by (rule getProviders_keeps_entries)
next
  assume "providers m (pinfo_Issuer (getProviderInfo e r)) = Some v"
  then show "getProvider e m r = (Inr (setProvider r v, v), m)"
    by (rule getProvider_hit)
qed

theorem one_provider_witness:
  "distinct (constructedFor (getProviders okServer newMiddleware [usersRequest, usersRequest])) \<and>
   providers (getProviders okServer (snd (getProvider okServer newMiddleware usersRequest))
       [usersRequest, usersRequest]) ''https://as.example'' = Some 0 \<and>
   getProvider okServer (snd (getProvider okServer newMiddleware usersRequest)) usersRequest =
     (Inr (setProvider usersRequest 0, 0),
      snd (getProvider okServer newMiddleware usersRequest))"
proof -
  have cached: "providers (snd (getProvider okServer newMiddleware usersRequest))
      ''https://as.example'' = Some 0"
    by (simp add: getProvider_def DiscoverUMA_def Let_def example_defs)
  have issuer: "pinfo_Issuer (getProviderInfo okServer usersRequest) = ''https://as.example''"
    by (simp add: example_defs)
  note t = one_provider_per_issuer [of okServer "[usersRequest, usersRequest]"
      "snd (getProvider okServer newMiddleware usersRequest)" "''https://as.example''" 0
      usersRequest]
  show ?thesis using t cached unfolding issuer by blast
qed

text \<open>
  C7. A request that matches no resource template is passed to the downstream handler as
  it came, and the state is unchanged: no provider looked up or constructed, no discovery
  and no registration request sent.
\<close>

theorem no_match_passes_through:
  "matchTemplates e r = None \<Longrightarrow> ServeHTTP e m r = (Served r, m)"
  by (simp add: ServeHTTP_def rm_match_def)

theorem no_match_witness:
  "ServeHTTP okServer newMiddleware unrelatedRequest = (Served unrelatedRequest, newMiddleware)"
proof -
  have "matchTemplates okServer unrelatedRequest = None"
    by (simp add: example_defs)
  then show ?thesis by (rule no_match_passes_through)
qed

text \<open>
  C4. For a request the matcher produced a Resource for: an unsupported provider type, a
  failed discovery and a failed \<^verbatim>\<open>RegisterResource\<close> each end the request in a panic,
  and the downstream handler is reached only when \<^verbatim>\<open>getProvider\<close> returned a Provider
  and \<^verbatim>\<open>RegisterResource\<close> returned \<^verbatim>\<open>nil\<close>.
\<close>

theorem failure_aborts_request:
  assumes matched: "rm_match e r0 = (r, Some res)"
  shows "(providers m (pinfo_Issuer (getProviderInfo e r)) = None \<and>
          pinfo_Type (getProviderInfo e r) \<noteq> Keycloak \<longrightarrow>
          fst (ServeHTTP e m r0) =
            Panicked (PanicError (ErrUnsupportedProviderType (pinfo_Type (getProviderInfo e r))))) \<and>
         (providers m (pinfo_Issuer (getProviderInfo e r)) = None \<and>
          pinfo_Type (getProviderInfo e r) = Keycloak \<and>
          discoveryDocument e (trace m) (pinfo_Issuer (getProviderInfo e r)) = Inl err \<longrightarrow>
          fst (ServeHTTP e m r0) = Panicked (PanicError err)) \<and>
         (getProvider e m r = (Inr (r1, p), m1) \<and>
          RegisterResource e (heap m1 p) res (trace m1) = (Some err', res', p', w') \<longrightarrow>
          fst (ServeHTTP e m r0) = Panicked (PanicError err')) \<and>
         (fst (ServeHTTP e m r0) = Served r' \<longrightarrow>
            (\<exists>r1 p m1 res' p' w'. getProvider e m r = (Inr (r1, p), m1) \<and>
               RegisterResource e (heap m1 p) res (trace m1) = (None, res', p', w')))"
proof (intro conjI impI)
  assume "providers m (pinfo_Issuer (getProviderInfo e r)) = None \<and>
          pinfo_Type (getProviderInfo e r) \<noteq> Keycloak"
  then show "fst (ServeHTTP e m r0) =
            Panicked (PanicError (ErrUnsupportedProviderType (pinfo_Type (getProviderInfo e r))))"
    using matched by (simp add: ServeHTTP_def getProvider_unsupported)
next
  assume "providers m (pinfo_Issuer (getProviderInfo e r)) = None \<and>
          pinfo_Type (getProviderInfo e r) = Keycloak \<and>
          discoveryDocument e (trace m) (pinfo_Issuer (getProviderInfo e r)) = Inl err"
  then have "fst (getProvider e m r) = Inl (PanicError err)"
    by (simp add: getProvider_discovery_fails)
  then show "fst (ServeHTTP e m r0) = Panicked (PanicError err)"
    using matched by (cases "getProvider e m r") (simp add: ServeHTTP_def)
next
  assume "getProvider e m r = (Inr (r1, p), m1) \<and>
          RegisterResource e (heap m1 p) res (trace m1) = (Some err', res', p', w')"
  then show "fst (ServeHTTP e m r0) = Panicked (PanicError err')"
    using matched by (simp add: ServeHTTP_def Let_def)
next
  assume "fst (ServeHTTP e m r0) = Served r'"
  then show "\<exists>r1 p m1 res' p' w'. getProvider e m r = (Inr (r1, p), m1) \<and>
               RegisterResource e (heap m1 p) res (trace m1) = (None, res', p', w')"
    using matched
    by (auto simp: ServeHTTP_def Let_def split: prod.splits sum.splits option.splits)
qed

theorem failure_aborts_witness:
  "fst (ServeHTTP unsupportedServer newMiddleware usersRequest) =
     Panicked (PanicError (ErrUnsupportedProviderType ''auth0'')) \<and>
   fst (ServeHTTP flakyServer newMiddleware usersRequest) =
     Panicked (PanicError (ErrDiscovery ''connection refused'')) \<and>
   fst (ServeHTTP deniedServer newMiddleware usersRequest) =
     Panicked (PanicError (ErrStatus 403 None)) \<and>
   (\<exists>r1 p m1 res' p' w'.
      getProvider okServer newMiddleware matchedUsersRequest = (Inr (r1, p), m1) \<and>
      RegisterResource okServer (heap m1 p) usersResource (trace m1) = (None, res', p', w'))"
proof -
  have m1: "rm_match unsupportedServer usersRequest = (matchedUsersRequest, Some usersResource)"
    and m2: "rm_match flakyServer usersRequest = (matchedUsersRequest, Some usersResource)"
    and m3: "rm_match deniedServer usersRequest = (matchedUsersRequest, Some usersResource)"
    and m4: "rm_match okServer usersRequest = (matchedUsersRequest, Some usersResource)"
    by (simp_all add: rm_match_def example_defs)
  have a: "providers newMiddleware
        (pinfo_Issuer (getProviderInfo unsupportedServer matchedUsersRequest)) = None \<and>
      pinfo_Type (getProviderInfo unsupportedServer matchedUsersRequest) \<noteq> Keycloak"
    by (simp add: example_defs)
  have b: "providers newMiddleware
        (pinfo_Issuer (getProviderInfo flakyServer matchedUsersRequest)) = None \<and>
      pinfo_Type (getProviderInfo flakyServer matchedUsersRequest) = Keycloak \<and>
      discoveryDocument flakyServer (trace newMiddleware)
        (pinfo_Issuer (getProviderInfo flakyServer matchedUsersRequest)) =
        Inl (ErrDiscovery ''connection refused'')"
    by (simp add: example_defs)
  define g where "g = getProvider deniedServer newMiddleware matchedUsersRequest"
  have g: "g = (Inr (setProvider matchedUsersRequest 0, 0), snd g)"
    by (simp add: g_def getProvider_def DiscoverUMA_def Let_def example_defs)
  have c: "getProvider deniedServer newMiddleware matchedUsersRequest =
        (Inr (setProvider matchedUsersRequest 0, 0), snd g) \<and>
      RegisterResource deniedServer (heap (snd g) 0) usersResource (trace (snd g)) =
        (Some (ErrStatus 403 None), usersResource, heap (snd g) 0,
         trace (snd g) @ [Request registrationRequest])"
    using g
    by (simp add: g_def getProvider_def DiscoverUMA_def Let_def RegisterResource_def
        registerResource_def register_def jsonRequest_def DoRequest_def ensure2XX_def
        example_defs)
  have d: "fst (ServeHTTP okServer newMiddleware usersRequest) =
      Served (setProvider matchedUsersRequest 0
        \<lparr>ctxResource := Some (usersResource\<lparr>ID := ''r-1''\<rparr>)\<rparr>)"
    by (simp add: ServeHTTP_def rm_match_def getProvider_def DiscoverUMA_def Let_def
        RegisterResource_def registerResource_def register_def jsonRequest_def DoRequest_def
        ensure2XX_def decode_createResourceResponse_def stringField_def example_defs)
  from failure_aborts_request [OF m1, of newMiddleware] a
  have "fst (ServeHTTP unsupportedServer newMiddleware usersRequest) =
     Panicked (PanicError (ErrUnsupportedProviderType ''auth0''))"
    by (simp add: example_defs)
  moreover from failure_aborts_request [OF m2, of newMiddleware] b
  have "fst (ServeHTTP flakyServer newMiddleware usersRequest) =
     Panicked (PanicError (ErrDiscovery ''connection refused''))"
    by blast
  moreover from failure_aborts_request [OF m3, of newMiddleware] c
  have "fst (ServeHTTP deniedServer newMiddleware usersRequest) =
     Panicked (PanicError (ErrStatus 403 None))"
    by blast
  moreover from failure_aborts_request [OF m4, of newMiddleware] d
  have "\<exists>r1 p m1 res' p' w'.
      getProvider okServer newMiddleware matchedUsersRequest = (Inr (r1, p), m1) \<and>
      RegisterResource okServer (heap m1 p) usersResource (trace m1) = (None, res', p', w')"
    by blast
  ultimately show ?thesis by blast
qed

section \<open>Properties of the base provider\<close>

text \<open>
  C10. Calling \<^verbatim>\<open>Realm\<close> on the shared base provider panics whatever the provider's
  state is: there is no provider for which it returns a realm.
\<close>

theorem Realm_always_panics:
  "Realm p = Inl (PanicString ''Realm unimplemented'')"
  by (simp add: Realm_def)

end
